theory Spec2Isabelle
  imports Main
begin

section \<open>Python values used by \<^verbatim>\<open>contrib/generate_icons.py\<close>\<close>

text \<open>
  A Python \<^verbatim>\<open>str\<close> is a sequence of Unicode code points; it is modelled as a list of
  natural numbers, one per code point. String literals of the script are ASCII and are
  written with \<open>str_lit\<close>.
\<close>

type_synonym pystr = "nat list"

definition str_lit :: "string \<Rightarrow> pystr" where
  "str_lit s = map of_char s"

text \<open>
  Exceptions are values. \<open>ConnectionError\<close> and \<open>YAMLError\<close> stand for what
  \<^verbatim>\<open>requests.get\<close> and \<^verbatim>\<open>yaml.full_load\<close> raise; the others are raised by the
  interpreter itself.
\<close>

datatype py_exception =
  ValueError | OverflowError | TypeError | KeyError | AttributeError | ConnectionError | YAMLError

text \<open>
  The document returned by \<^verbatim>\<open>yaml.full_load\<close> is dynamically typed. The script touches
  it only through \<^verbatim>\<open>.items()\<close>, the subscripts \<^verbatim>\<open>["search"]\<close>, \<^verbatim>\<open>["terms"]\<close>,
  \<^verbatim>\<open>["unicode"]\<close>, the test \<^verbatim>\<open>is not None\<close>, list concatenation and \<^verbatim>\<open>int(_, 16)\<close>.
  Each position of the document therefore gets a datatype with one constructor per kind of
  Python object the script distinguishes there; the constructors named \<open>...Obj\<close> stand
  for every other object (number, boolean, string, list, ... as the case may be), on
  which the operation applied at that position raises. A key of a mapping that may be
  missing is an \<open>option\<close>. Icon names and search terms are strings, as in the
  upstream metadata; byte strings (YAML \<^verbatim>\<open>!!binary\<close>) are left out.
\<close>

datatype hexcode =
  HexStr pystr  \<comment> \<open>a \<^verbatim>\<open>str\<close>\<close>
| HexObj        \<comment> \<open>any other object (a number, a list, ...): \<^verbatim>\<open>int(x, 16)\<close> raises TypeError\<close>

datatype terms =
  TermsNone               \<comment> \<open>\<^verbatim>\<open>None\<close> (YAML null)\<close>
| TermsList "pystr list"  \<comment> \<open>a list of strings\<close>
| TermsObj                \<comment> \<open>neither \<^verbatim>\<open>None\<close> nor a list: \<^verbatim>\<open>[name] + x\<close> raises TypeError\<close>

datatype search =
  SearchDict "terms option"  \<comment> \<open>a mapping; the argument is its value at key \<^verbatim>\<open>"terms"\<close>\<close>
| SearchObj                  \<comment> \<open>not a mapping: \<^verbatim>\<open>x["terms"]\<close> raises TypeError\<close>

datatype icon =
  IconDict "hexcode option" "search option"
    \<comment> \<open>a mapping; its values at the keys \<^verbatim>\<open>"unicode"\<close> and \<^verbatim>\<open>"search"\<close>\<close>
| IconObj  \<comment> \<open>not a mapping: subscripting with a string raises TypeError\<close>

datatype document =
  DocDict "(pystr \<times> icon) list"  \<comment> \<open>a mapping, as the list of its items in iteration order\<close>
| DocObj                          \<comment> \<open>not a mapping: \<^verbatim>\<open>.items()\<close> raises AttributeError\<close>

record response =
  status_code :: nat
  response_text :: pystr

text \<open>
  What the script takes from outside: the two tables of the Unicode database that
  \<^verbatim>\<open>int\<close> consults on non-ASCII input (is the character white space; its value, 0 to 9,
  if it is a decimal digit), the network and the YAML parser.
\<close>

record world =
  unicode_isspace :: "nat \<Rightarrow> bool"
  unicode_todecimal :: "nat \<Rightarrow> nat option"
  requests_get :: "pystr \<Rightarrow> py_exception + response"
  yaml_full_load :: "pystr \<Rightarrow> py_exception + document"

text \<open>
  Standard output is the list of the strings passed to \<^verbatim>\<open>print\<close>, oldest first; the
  stream holds each of them followed by a newline. Failures of the stream itself are not
  modelled.
\<close>

type_synonym stdout = "pystr list"

type_synonym 'a io = "(py_exception + 'a) \<times> stdout"

definition py_print :: "pystr \<Rightarrow> stdout \<Rightarrow> stdout" where
  "py_print s out = out @ [s]"

section \<open>The built-ins \<^verbatim>\<open>int(x, 16)\<close> and \<^verbatim>\<open>chr\<close>\<close>

text \<open>
  \<^verbatim>\<open>int\<close> on a string first maps Unicode white space to a blank and Unicode decimal
  digits to ASCII digits (a string that is ASCII already is left alone; the first character
  that is neither becomes \<^verbatim>\<open>?\<close> and ends the string), then reads the ASCII text:
  white space, a sign, for base 16 the prefix \<^verbatim>\<open>0x\<close> or \<^verbatim>\<open>0X\<close> and one underscore
  after it, digits with single underscores between them, white space.
\<close>

fun transform_loop :: "world \<Rightarrow> pystr \<Rightarrow> pystr" where
  "transform_loop w [] = []"
| "transform_loop w (ch # rest) =
     (if ch < 127 then ch # transform_loop w rest
      else if unicode_isspace w ch then 32 # transform_loop w rest
      else (case unicode_todecimal w ch of
              None \<Rightarrow> [63]
            | Some decimal \<Rightarrow> (48 + decimal) # transform_loop w rest))"

definition transform_decimal_and_space :: "world \<Rightarrow> pystr \<Rightarrow> pystr" where
  "transform_decimal_and_space w u =
     (if list_all (\<lambda>ch. ch < 128) u then u else transform_loop w u)"

definition py_isspace :: "nat \<Rightarrow> bool" where
  "py_isspace c \<longleftrightarrow> c = 32 \<or> (9 \<le> c \<and> c \<le> 13)"

definition digit_value :: "nat \<Rightarrow> nat" where
  "digit_value c =
     (if 48 \<le> c \<and> c \<le> 57 then c - 48
      else if 97 \<le> c \<and> c \<le> 122 then c - 87
      else if 65 \<le> c \<and> c \<le> 90 then c - 55
      else 37)"

definition skip_sign :: "pystr \<Rightarrow> int \<times> pystr" where
  "skip_sign s =
     (case s of
        [] \<Rightarrow> (1, s)
      | c # r \<Rightarrow> if c = 43 then (1, r) else if c = 45 then (- 1, r) else (1, s))"

fun skip_prefix16 :: "pystr \<Rightarrow> pystr" where
  "skip_prefix16 (c0 # c1 # r) =
     (if c0 = 48 \<and> (c1 = 120 \<or> c1 = 88)
      then (case r of [] \<Rightarrow> r | u # r' \<Rightarrow> if u = 95 then r' else r)
      else c0 # c1 # r)"
| "skip_prefix16 s = s"

definition digit_or_underscore :: "nat \<Rightarrow> bool" where
  "digit_or_underscore c \<longleftrightarrow> digit_value c < 16 \<or> c = 95"

fun double_underscore :: "pystr \<Rightarrow> bool" where
  "double_underscore (a # b # r) = ((a = 95 \<and> b = 95) \<or> double_underscore (b # r))"
| "double_underscore s = False"

definition digits_value :: "pystr \<Rightarrow> int" where
  "digits_value ds = foldl (\<lambda>z c. z * 16 + int (digit_value c)) 0 ds"

definition long_from_string16 :: "pystr \<Rightarrow> py_exception + int" where
  "long_from_string16 s =
     (let (sign, s2) = skip_sign (dropWhile py_isspace s);
          s3 = skip_prefix16 s2;
          run = takeWhile digit_or_underscore s3;
          rest = dropWhile digit_or_underscore s3
      in if run = [] \<or> hd run = 95 \<or> double_underscore run \<or> last run = 95
         then Inl ValueError
         else if dropWhile py_isspace rest \<noteq> [] then Inl ValueError
         else Inr (sign * digits_value (filter (\<lambda>c. c \<noteq> 95) run)))"

definition py_int16 :: "world \<Rightarrow> hexcode \<Rightarrow> py_exception + int" where
  "py_int16 w x =
     (case x of
        HexObj \<Rightarrow> Inl TypeError
      | HexStr u \<Rightarrow> long_from_string16 (transform_decimal_and_space w u))"

text \<open>
  \<^verbatim>\<open>chr(i)\<close> is the one-character string of code point \<open>i\<close>, for \<open>i\<close> in
  \<^verbatim>\<open>range(0x110000)\<close>. The argument is converted to a C int first: beyond 32 bits the
  interpreter reports OverflowError, and ValueError for the other integers out of range.
\<close>

definition py_chr :: "int \<Rightarrow> py_exception + pystr" where
  "py_chr i =
     (if i < - (2 ^ 31) \<or> 2 ^ 31 \<le> i then Inl OverflowError
      else if 0 \<le> i \<and> i < 0x110000 then Inr [nat i]
      else Inl ValueError)"

section \<open>The script\<close>

definition unicode_symbol :: "world \<Rightarrow> hexcode \<Rightarrow> py_exception + pystr" where
  "unicode_symbol w hex_code =
     (case py_int16 w hex_code of Inl e \<Rightarrow> Inl e | Inr i \<Rightarrow> py_chr i)"

text \<open>The f-string \<^verbatim>\<open>f'"(?i){name}" = "{symbol}"'\<close>.\<close>

definition icon_line :: "pystr \<Rightarrow> pystr \<Rightarrow> pystr" where
  \<open>icon_line name symbol = str_lit ''"(?i)'' @ name @ str_lit ''" = "'' @ symbol @ str_lit ''"''\<close>

definition term_icon :: hexcode where
  "term_icon = HexStr (str_lit ''f120'')"

definition print_custom_icons :: "world \<Rightarrow> stdout \<Rightarrow> unit io" where
  "print_custom_icons w out =
     (case unicode_symbol w term_icon of
        Inl e \<Rightarrow> (Inl e, out)
      | Inr s1 \<Rightarrow>
          let out1 = py_print (icon_line (str_lit ''alacritty'') s1) out in
          (case unicode_symbol w term_icon of
             Inl e \<Rightarrow> (Inl e, out1)
           | Inr s2 \<Rightarrow> (Inr (), py_print (icon_line (str_lit ''kitty'') s2) out1)))"

text \<open>The subscripts \<^verbatim>\<open>icon["search"]\<close>, \<^verbatim>\<open>x["terms"]\<close> and \<^verbatim>\<open>icon["unicode"]\<close>.\<close>

definition getitem_search :: "icon \<Rightarrow> py_exception + search" where
  "getitem_search ic =
     (case ic of
        IconObj \<Rightarrow> Inl TypeError
      | IconDict u None \<Rightarrow> Inl KeyError
      | IconDict u (Some s) \<Rightarrow> Inr s)"

definition getitem_terms :: "search \<Rightarrow> py_exception + terms" where
  "getitem_terms s =
     (case s of
        SearchObj \<Rightarrow> Inl TypeError
      | SearchDict None \<Rightarrow> Inl KeyError
      | SearchDict (Some t) \<Rightarrow> Inr t)"

definition getitem_unicode :: "icon \<Rightarrow> py_exception + hexcode" where
  "getitem_unicode ic =
     (case ic of
        IconObj \<Rightarrow> Inl TypeError
      | IconDict None s \<Rightarrow> Inl KeyError
      | IconDict (Some h) s \<Rightarrow> Inr h)"

definition search_terms :: "icon \<Rightarrow> py_exception + terms" where
  "search_terms ic =
     (case getitem_search ic of Inl e \<Rightarrow> Inl e | Inr s \<Rightarrow> getitem_terms s)"

text \<open>
  The list \<^verbatim>\<open>names\<close> of one iteration. With \<^verbatim>\<open>include_aliases\<close> false the \<^verbatim>\<open>and\<close>
  does not evaluate its right operand; otherwise \<^verbatim>\<open>icon["search"]["terms"]\<close> is
  evaluated for the test and, when it is not \<^verbatim>\<open>None\<close>, again for the concatenation.
\<close>

definition icon_names :: "pystr \<Rightarrow> icon \<Rightarrow> bool \<Rightarrow> py_exception + pystr list" where
  "icon_names icon_name ic include_aliases =
     (if include_aliases then
        (case search_terms ic of
           Inl e \<Rightarrow> Inl e
         | Inr TermsNone \<Rightarrow> Inr ([icon_name] @ [])
         | Inr (TermsList ts) \<Rightarrow> Inr ([icon_name] @ ts)
         | Inr TermsObj \<Rightarrow> Inl TypeError)
      else Inr ([icon_name] @ []))"

text \<open>
  The inner loop. The f-string is evaluated before \<^verbatim>\<open>print\<close> is called, so a failing
  \<^verbatim>\<open>icon["unicode"]\<close> or \<^verbatim>\<open>unicode_symbol\<close> leaves the output as it was.
\<close>

fun print_names :: "world \<Rightarrow> icon \<Rightarrow> pystr list \<Rightarrow> stdout \<Rightarrow> unit io" where
  "print_names w ic [] out = (Inr (), out)"
| "print_names w ic (name # names) out =
     (case getitem_unicode ic of
        Inl e \<Rightarrow> (Inl e, out)
      | Inr h \<Rightarrow>
          (case unicode_symbol w h of
             Inl e \<Rightarrow> (Inl e, out)
           | Inr symbol \<Rightarrow> print_names w ic names (py_print (icon_line name symbol) out)))"

definition print_icon :: "world \<Rightarrow> bool \<Rightarrow> pystr \<Rightarrow> icon \<Rightarrow> stdout \<Rightarrow> unit io" where
  "print_icon w include_aliases icon_name ic out =
     (case icon_names icon_name ic include_aliases of
        Inl e \<Rightarrow> (Inl e, out)
      | Inr names \<Rightarrow> print_names w ic (filter (\<lambda>x. x \<noteq> []) names) out)"

fun print_items :: "world \<Rightarrow> bool \<Rightarrow> (pystr \<times> icon) list \<Rightarrow> stdout \<Rightarrow> unit io" where
  "print_items w include_aliases [] out = (Inr (), out)"
| "print_items w include_aliases ((icon_name, ic) # items) out =
     (case print_icon w include_aliases icon_name ic out of
        (Inl e, out') \<Rightarrow> (Inl e, out')
      | (Inr u, out') \<Rightarrow> print_items w include_aliases items out')"

definition print_icon_names :: "world \<Rightarrow> document \<Rightarrow> bool \<Rightarrow> stdout \<Rightarrow> unit io" where
  "print_icon_names w icons_dict include_aliases out =
     (case icons_dict of
        DocObj \<Rightarrow> (Inl AttributeError, out)
      | DocDict items \<Rightarrow> print_items w include_aliases items out)"

definition main :: "world \<Rightarrow> pystr \<Rightarrow> pystr \<Rightarrow> bool \<Rightarrow> stdout \<Rightarrow> unit io" where
  "main w uri version include_aliases out =
     (case requests_get w uri of
        Inl e \<Rightarrow> (Inl e, out)
      | Inr resp \<Rightarrow>
          (case yaml_full_load w (response_text resp) of
             Inl e \<Rightarrow> (Inl e, out)
           | Inr icons_dict \<Rightarrow>
               (case print_custom_icons w (py_print (str_lit ''[icons]'') out) of
                  (Inl e, out') \<Rightarrow> (Inl e, out')
                | (Inr u, out') \<Rightarrow> print_icon_names w icons_dict include_aliases out')))"

text \<open>
  The \<^verbatim>\<open>__main__\<close> block. The command line is taken as \<^verbatim>\<open>argparse\<close> understood it:
  the value given to \<^verbatim>\<open>--revision\<close>, if any, and whether \<^verbatim>\<open>--include_aliases\<close> was
  given. The result is the exit status (1 for an uncaught exception) and what was printed.
\<close>

record command_line =
  revision_given :: "pystr option"
  include_aliases_given :: bool

record args =
  revision :: pystr
  include_aliases :: bool

definition parse_args :: "command_line \<Rightarrow> args" where
  "parse_args cl =
     \<lparr>revision = (case revision_given cl of None \<Rightarrow> str_lit ''master'' | Some r \<Rightarrow> r),
      include_aliases = include_aliases_given cl\<rparr>"

definition URI :: "pystr \<Rightarrow> pystr" where
  "URI REVISION =
     str_lit ''https://raw.githubusercontent.com'' @
     (str_lit ''/FortAwesome/Font-Awesome/'' @ REVISION @ str_lit ''/metadata/icons.yml'')"

definition script :: "world \<Rightarrow> command_line \<Rightarrow> nat \<times> stdout" where
  "script w cl =
     (let a = parse_args cl in
      case main w (URI (revision a)) (revision a) (include_aliases a) [] of
        (Inl e, out) \<Rightarrow> (1, out)
      | (Inr u, out) \<Rightarrow> (0, out))"

section \<open>Notions of the specification\<close>

text \<open>
  A hexadecimal numeral in the plain sense: one or more of the digits \<^verbatim>\<open>0-9a-fA-F\<close>,
  read positionally in base 16.
\<close>

definition is_hex_digit :: "nat \<Rightarrow> bool" where
  "is_hex_digit c \<longleftrightarrow> (48 \<le> c \<and> c \<le> 57) \<or> (97 \<le> c \<and> c \<le> 102) \<or> (65 \<le> c \<and> c \<le> 70)"

definition hex_digit_val :: "nat \<Rightarrow> nat" where
  "hex_digit_val c = (if c \<le> 57 then c - 48 else if c \<le> 70 then c - 55 else c - 87)"

definition hex_value :: "pystr \<Rightarrow> nat" where
  "hex_value h = foldl (\<lambda>a c. 16 * a + hex_digit_val c) 0 h"

definition hex_numeral :: "pystr \<Rightarrow> bool" where
  "hex_numeral h \<longleftrightarrow> h \<noteq> [] \<and> list_all is_hex_digit h"

text \<open>
  The strings that \<^verbatim>\<open>int(_, 16)\<close> reads, as a grammar: hexadecimal digits, with single
  underscores allowed between two of them; before them an optional sign and an optional
  prefix \<^verbatim>\<open>0x\<close> or \<^verbatim>\<open>0X\<close>, itself optionally followed by one underscore; white space
  (blank, tab, line feed, vertical tab, form feed, carriage return) around the whole.
  \<open>int16_literal a v\<close> says that \<open>a\<close> is such a string and \<open>v\<close> its value.
\<close>

inductive digit_group :: "pystr \<Rightarrow> bool" where
  one: "is_hex_digit c \<Longrightarrow> digit_group [c]"
| more: "is_hex_digit c \<Longrightarrow> digit_group g \<Longrightarrow> digit_group (c # g)"
| underscore: "is_hex_digit c \<Longrightarrow> digit_group g \<Longrightarrow> digit_group (c # 95 # g)"

definition int16_literal :: "pystr \<Rightarrow> int \<Rightarrow> bool" where
  "int16_literal a v \<longleftrightarrow>
     (\<exists>l sg p g r.
        a = l @ sg @ p @ g @ r \<and> list_all py_isspace l \<and> list_all py_isspace r \<and>
        sg \<in> {[], str_lit ''+'', str_lit ''-''} \<and>
        p \<in> {[], str_lit ''0x'', str_lit ''0X'', str_lit ''0x_'', str_lit ''0X_''} \<and>
        digit_group g \<and>
        v = (if sg = str_lit ''-'' then - 1 else 1) * int (hex_value (filter (\<lambda>c. c \<noteq> 95) g)))"

text \<open>
  The catalog entry of the specification's data model: a name, the hexadecimal string
  \<open>unicode\<close> and the aliases, \<open>None\<close> for a null alias list. \<open>as_item\<close> is the item of
  the loaded document that carries such an entry.
\<close>

record icon_entry =
  entry_name :: pystr
  entry_unicode :: pystr
  entry_aliases :: "pystr list option"

definition as_item :: "icon_entry \<Rightarrow> pystr \<times> icon" where
  "as_item e =
     (entry_name e,
      IconDict (Some (HexStr (entry_unicode e)))
        (Some (SearchDict (Some (case entry_aliases e of
                                   None \<Rightarrow> TermsNone
                                 | Some ts \<Rightarrow> TermsList ts)))))"

definition alias_list :: "icon_entry \<Rightarrow> pystr list" where
  "alias_list e = (case entry_aliases e of None \<Rightarrow> [] | Some ts \<Rightarrow> ts)"

text \<open>The same world, with every completed request reporting the status \<open>f\<close> makes of its own.\<close>

definition with_status :: "(nat \<Rightarrow> nat) \<Rightarrow> world \<Rightarrow> world" where
  "with_status f w =
     w\<lparr>requests_get :=
         (\<lambda>uri. case requests_get w uri of
                  Inl e \<Rightarrow> Inl e
                | Inr resp \<Rightarrow> Inr (resp\<lparr>status_code := f (status_code resp)\<rparr>))\<rparr>"

section \<open>Concrete runs\<close>

text \<open>
  Worlds for concrete runs: every request has the given outcome and the parser the given
  result. Their Unicode tables are empty; they are consulted on non-ASCII input only.
  \<open>offline\<close> has no network; \<open>served status body doc\<close> answers every request with the
  given status and body, which the parser loads as \<open>doc\<close>.
\<close>

definition example_world :: "py_exception + response \<Rightarrow> py_exception + document \<Rightarrow> world" where
  "example_world got loaded =
     \<lparr>unicode_isspace = (\<lambda>c. False), unicode_todecimal = (\<lambda>c. None),
      requests_get = (\<lambda>uri. got), yaml_full_load = (\<lambda>t. loaded)\<rparr>"

definition offline :: world where
  "offline = example_world (Inl ConnectionError) (Inl YAMLError)"

definition served :: "nat \<Rightarrow> pystr \<Rightarrow> document \<Rightarrow> world" where
  "served status body doc =
     example_world (Inr \<lparr>status_code = status, response_text = body\<rparr>) (Inr doc)"

definition no_options :: command_line where
  "no_options = \<lparr>revision_given = None, include_aliases_given = False\<rparr>"

text \<open>
  Items of a document, with the YAML text of the two that are served: the entry
  \<^verbatim>\<open>500px\<close> of the upstream metadata, the same without its \<^verbatim>\<open>"search"\<close> key, an item
  whose \<open>unicode\<close> is no number and which has no \<^verbatim>\<open>"search"\<close> key either, and an item
  with the empty name and null terms.
\<close>

definition px500 :: "pystr \<times> icon" where
  "px500 = (str_lit ''500px'',
     IconDict (Some (HexStr (str_lit ''f26e''))) (Some (SearchDict (Some (TermsList [str_lit ''px''])))))"

definition px500_yaml :: pystr where
  "px500_yaml = str_lit ''500px: {unicode: f26e, search: {terms: [px]}}''"


definition failing_entry :: "pystr \<times> icon" where
  "failing_entry = (str_lit ''broken'', IconDict (Some (HexStr (str_lit ''zz''))) None)"

definition failing_yaml :: pystr where
  "failing_yaml = str_lit ''broken: {unicode: zz}''"



definition blank_entry :: icon_entry where
  "blank_entry =
     \<lparr>entry_name = [], entry_unicode = str_lit ''f26e'',
      entry_aliases = Some [str_lit ''px'', []]\<rparr>"

text \<open>The code \<^verbatim>\<open>f120\<close> written with blanks, a sign, a prefix and underscores.\<close>

definition padded_f120 :: pystr where
  "padded_f120 = str_lit '' +0x_f1_20 ''"

section \<open>Decoding a code point\<close>

lemma is_hex_digit_iff: "is_hex_digit c \<longleftrightarrow> digit_value c < 16"
  by (auto simp: is_hex_digit_def digit_value_def)

lemma hex_digit_value: "is_hex_digit c \<Longrightarrow> digit_value c = hex_digit_val c"
  by (auto simp: is_hex_digit_def digit_value_def hex_digit_val_def)

lemma hex_digit_val_less: "is_hex_digit c \<Longrightarrow> hex_digit_val c < 16"
  by (auto simp: is_hex_digit_def hex_digit_val_def)

lemma hex_digit_not_space: "is_hex_digit c \<Longrightarrow> \<not> py_isspace c"
  by (auto simp: is_hex_digit_def py_isspace_def)

lemma hex_digit_facts:
  "is_hex_digit c \<Longrightarrow> c \<noteq> 95 \<and> c \<noteq> 43 \<and> c \<noteq> 45 \<and> c \<noteq> 120 \<and> c \<noteq> 88 \<and> digit_or_underscore c"
  by (auto simp: is_hex_digit_def digit_or_underscore_def digit_value_def)

lemma foldl_digits_value:
  "list_all is_hex_digit ds \<Longrightarrow>
   foldl (\<lambda>z c. z * 16 + int (digit_value c)) (int a) ds = int (foldl (\<lambda>a c. 16 * a + hex_digit_val c) a ds)"
proof (induction ds arbitrary: a)
  case Nil
  then show ?case by simp
next
  case (Cons c ds)
  have eq: "int a * 16 + int (digit_value c) = int (16 * a + hex_digit_val c)"
    using Cons.prems by (simp add: hex_digit_value)
  have ds: "list_all is_hex_digit ds" using Cons.prems by simp
  show ?case
    unfolding foldl_Cons eq by (rule Cons.IH [OF ds])
qed

lemma digits_value_hex: "list_all is_hex_digit ds \<Longrightarrow> digits_value ds = int (hex_value ds)"
  using foldl_digits_value [of ds 0] by (simp add: digits_value_def hex_value_def)

lemma no_double_underscore: "95 \<notin> set s \<Longrightarrow> \<not> double_underscore s"
  by (induction s rule: double_underscore.induct) auto

lemma skip_prefix16_hex: "list_all is_hex_digit s \<Longrightarrow> skip_prefix16 s = s"
  by (cases s rule: skip_prefix16.cases) (auto dest: hex_digit_facts)

lemma long_from_string16_hex:
  assumes "h \<noteq> []" "list_all is_hex_digit h"
  shows "long_from_string16 h = Inr (int (hex_value h))"
proof -
  obtain c r where h: "h = c # r" using assms(1) by (cases h) auto
  have c: "is_hex_digit c" using assms(2) h by simp
  have all: "\<And>x. x \<in> set h \<Longrightarrow> is_hex_digit x" using assms(2) by (simp add: list_all_iff)
  have sp: "dropWhile py_isspace h = h" using c h by (simp add: hex_digit_not_space)
  have sg: "skip_sign h = (1, h)" using c h hex_digit_facts [OF c] by (simp add: skip_sign_def)
  have tw: "takeWhile digit_or_underscore h = h" using all by (simp add: hex_digit_facts)
  have dw: "dropWhile digit_or_underscore h = []" using all by (simp add: hex_digit_facts)
  have no95: "95 \<notin> set h" using all hex_digit_facts by blast
  have l: "last h \<noteq> 95" using no95 assms(1) last_in_set by metis
  have f: "filter (\<lambda>c. c \<noteq> 95) h = h" using no95 by (simp add: filter_id_conv) metis
  have hd: "hd h \<noteq> 95" using no95 assms(1) hd_in_set by metis
  show ?thesis
    using assms(1) no95 l hd
    by (simp add: long_from_string16_def sp sg skip_prefix16_hex [OF assms(2)] tw dw f
        no_double_underscore digits_value_hex [OF assms(2)])
qed

lemma hex_digit_ascii: "is_hex_digit c \<Longrightarrow> c < 128"
  by (auto simp: is_hex_digit_def)

lemma transform_hex: "list_all is_hex_digit h \<Longrightarrow> transform_decimal_and_space w h = h"
  by (auto simp: transform_decimal_and_space_def list_all_iff dest: hex_digit_ascii)

lemma hex_value_snoc: "hex_value (h @ [c]) = 16 * hex_value h + hex_digit_val c"
  by (simp add: hex_value_def)

lemma hex_value_less: "list_all is_hex_digit h \<Longrightarrow> hex_value h < 16 ^ length h"
proof (induction h rule: rev_induct)
  case Nil
  then show ?case by (simp add: hex_value_def)
next
  case (snoc c h)
  then have "hex_value h < 16 ^ length h" "hex_digit_val c < 16"
    by (simp_all add: hex_digit_val_less)
  then have "16 * hex_value h + hex_digit_val c < 16 * 16 ^ length h" by linarith
  then show ?case by (simp add: hex_value_snoc)
qed

lemma unicode_symbol_hex:
  assumes "h \<noteq> []" "list_all is_hex_digit h" "hex_value h < 0x110000"
  shows "unicode_symbol w (HexStr h) = Inr [hex_value h]"
  using assms(3)
  by (simp add: unicode_symbol_def py_int16_def transform_hex [OF assms(2)]
      long_from_string16_hex [OF assms(1,2)] py_chr_def)

text \<open>
  Claim C3. On every string of four hexadecimal digits \<open>unicode_symbol\<close> returns the
  string of length one whose code point is the base-16 value of the digits (which is always
  below \<^verbatim>\<open>0x110000\<close>); on \<^verbatim>\<open>"f120"\<close> it returns the character U+F120.
\<close>

theorem unicode_symbol_four_hex_digits:
  "(length h = 4 \<and> list_all is_hex_digit h \<longrightarrow>
      hex_value h < 0x110000 \<and> unicode_symbol w (HexStr h) = Inr [hex_value h]) \<and>
   unicode_symbol w (HexStr (str_lit ''f120'')) = Inr [0xF120]"
proof (intro conjI impI)
  assume h: "length h = 4 \<and> list_all is_hex_digit h"
  then have "hex_value h < 16 ^ 4" using hex_value_less [of h] by simp
  then show v: "hex_value h < 0x110000" by simp
  from h have "h \<noteq> []" by auto
  then show "unicode_symbol w (HexStr h) = Inr [hex_value h]"
    using h v by (simp add: unicode_symbol_hex)
next
  have "unicode_symbol w (HexStr (str_lit ''f120'')) = Inr [hex_value (str_lit ''f120'')]"
    by (rule unicode_symbol_hex) (simp_all add: str_lit_def is_hex_digit_def hex_value_def hex_digit_val_def)
  then show "unicode_symbol w (HexStr (str_lit ''f120'')) = Inr [0xF120]"
    by (simp add: str_lit_def hex_value_def hex_digit_val_def)
qed

theorem unicode_symbol_four_hex_digits_witness:
  "length (str_lit ''f26e'') = 4 \<and> list_all is_hex_digit (str_lit ''f26e'') \<and>
   unicode_symbol offline (HexStr (str_lit ''f26e'')) = Inr [0xF26E]"
  using unicode_symbol_four_hex_digits [of "str_lit ''f26e''" offline]
  by (simp add: str_lit_def is_hex_digit_def hex_value_def hex_digit_val_def)

section \<open>The header and the custom lines\<close>

lemma unicode_symbol_term_icon: "unicode_symbol w term_icon = Inr [0xF120]"
proof -
  have "unicode_symbol w (HexStr (str_lit ''f120'')) = Inr [hex_value (str_lit ''f120'')]"
    by (rule unicode_symbol_hex)
      (simp_all add: str_lit_def is_hex_digit_def hex_value_def hex_digit_val_def)
  then show ?thesis
    by (simp add: term_icon_def str_lit_def hex_value_def hex_digit_val_def)
qed

lemma print_custom_icons_eq:
  "print_custom_icons w out =
     (Inr (), out @ [icon_line (str_lit ''alacritty'') [0xF120], icon_line (str_lit ''kitty'') [0xF120]])"
  by (simp add: print_custom_icons_def unicode_symbol_term_icon py_print_def)

lemma print_names_append:
  "print_names w ic ns out =
     (fst (print_names w ic ns []), out @ snd (print_names w ic ns []))"
proof (induction ns arbitrary: out)
  case Nil
  then show ?case by simp
next
  case (Cons n ns)
  show ?case
  proof (cases "getitem_unicode ic")
    case (Inl e)
    then show ?thesis by simp
  next
    case (Inr h)
    show ?thesis
    proof (cases "unicode_symbol w h")
      case (Inl e)
      with Inr show ?thesis by simp
    next
      case s: (Inr s)
      have a: "print_names w ic (n # ns) out = print_names w ic ns (out @ [icon_line n s])"
        and b: "print_names w ic (n # ns) [] = print_names w ic ns [icon_line n s]"
        using Inr s by (simp_all add: py_print_def)
      show ?thesis
        unfolding a b
        using Cons.IH [of "out @ [icon_line n s]"] Cons.IH [of "[icon_line n s]"]
        by simp
    qed
  qed
qed

lemma print_icon_append:
  "print_icon w b n ic out = (fst (print_icon w b n ic []), out @ snd (print_icon w b n ic []))"
proof (cases "icon_names n ic b")
  case (Inl e)
  then show ?thesis by (simp add: print_icon_def)
next
  case (Inr ns)
  then show ?thesis
    using print_names_append [of w ic "filter (\<lambda>x. x \<noteq> []) ns" out]
    by (simp add: print_icon_def)
qed

lemma print_items_append:
  "print_items w b items out = (fst (print_items w b items []), out @ snd (print_items w b items []))"
proof (induction items arbitrary: out)
  case Nil
  then show ?case by simp
next
  case (Cons p items)
  obtain n ic where p: "p = (n, ic)" by (cases p)
  obtain r new where r: "print_icon w b n ic [] = (r, new)" by (cases "print_icon w b n ic []")
  then have r': "print_icon w b n ic out = (r, out @ new)"
    using print_icon_append [of w b n ic out] by simp
  show ?case
  proof (cases r)
    case (Inl e)
    then show ?thesis using p r r' by simp
  next
    case (Inr u)
    then show ?thesis
      using p r r' Cons.IH [of "out @ new"] Cons.IH [of new] by simp
  qed
qed

lemma print_icon_names_append:
  "print_icon_names w doc b out =
     (fst (print_icon_names w doc b []), out @ snd (print_icon_names w doc b []))"
  using print_items_append [of w b _ out]
  by (cases doc) (simp_all add: print_icon_names_def)

lemma main_cases:
  "main w uri v b out =
     (case requests_get w uri of
        Inl e \<Rightarrow> (Inl e, out)
      | Inr resp \<Rightarrow>
          (case yaml_full_load w (response_text resp) of
             Inl e \<Rightarrow> (Inl e, out)
           | Inr doc \<Rightarrow>
               print_icon_names w doc b
                 (out @ [str_lit ''[icons]'', icon_line (str_lit ''alacritty'') [0xF120],
                         icon_line (str_lit ''kitty'') [0xF120]])))"
  by (simp add: main_def print_custom_icons_eq py_print_def split: sum.splits)

lemma script_cases:
  "script w cl =
     (case main w (URI (revision (parse_args cl))) (revision (parse_args cl))
             (include_aliases (parse_args cl)) [] of
        (Inl e, out) \<Rightarrow> (1, out)
      | (Inr u, out) \<Rightarrow> (0, out))"
  by (simp add: script_def Let_def)

lemma unicode_symbol_f26e: "unicode_symbol w (HexStr (str_lit ''f26e'')) = Inr [0xF26E]"
proof -
  have "unicode_symbol w (HexStr (str_lit ''f26e'')) = Inr [hex_value (str_lit ''f26e'')]"
    by (rule unicode_symbol_hex)
      (simp_all add: str_lit_def is_hex_digit_def hex_value_def hex_digit_val_def)
  then show ?thesis
    by (simp add: str_lit_def hex_value_def hex_digit_val_def)
qed

lemma example_world_simps:
  "requests_get (example_world got loaded) uri = got"
  "yaml_full_load (example_world got loaded) t = loaded"
  by (simp_all add: example_world_def)

lemma str_lit_nonempty [simp]: "str_lit (c # cs) \<noteq> []"
  by (simp add: str_lit_def)

lemma print_items_px500_plain:
  "print_items w False [px500] out = (Inr (), out @ [icon_line (str_lit ''500px'') [0xF26E]])"
  by (simp add: px500_def print_icon_def icon_names_def getitem_unicode_def
      unicode_symbol_f26e py_print_def)

text \<open>
  Claim C2. A run that exits with status 0 has printed \<^verbatim>\<open>[icons]\<close> first, then the
  line for \<^verbatim>\<open>alacritty\<close> and the line for \<^verbatim>\<open>kitty\<close>, both with the character
  U+F120, and after them exactly what \<open>print_icon_names\<close> prints for the loaded document.
\<close>

theorem header_and_custom_lines_first:
  assumes "script w cl = (0, out)"
  shows "\<exists>resp doc lines.
           requests_get w (URI (revision (parse_args cl))) = Inr resp \<and>
           yaml_full_load w (response_text resp) = Inr doc \<and>
           print_icon_names w doc (include_aliases (parse_args cl)) [] = (Inr (), lines) \<and>
           out = str_lit ''[icons]'' # icon_line (str_lit ''alacritty'') [0xF120] #
                 icon_line (str_lit ''kitty'') [0xF120] # lines"
proof -
  let ?uri = "URI (revision (parse_args cl))"
  let ?b = "include_aliases (parse_args cl)"
  let ?head = "[str_lit ''[icons]'', icon_line (str_lit ''alacritty'') [0xF120],
                icon_line (str_lit ''kitty'') [0xF120]]"
  from assms obtain u where m: "main w ?uri (revision (parse_args cl)) ?b [] = (Inr u, out)"
    by (auto simp: script_cases split: prod.splits sum.splits)
  then obtain resp where resp: "requests_get w ?uri = Inr resp"
    by (cases "requests_get w ?uri") (simp_all add: main_cases)
  with m obtain doc where doc: "yaml_full_load w (response_text resp) = Inr doc"
    by (cases "yaml_full_load w (response_text resp)") (simp_all add: main_cases)
  from m resp doc have p: "print_icon_names w doc ?b ?head = (Inr u, out)"
    by (simp add: main_cases)
  obtain r lines where l: "print_icon_names w doc ?b [] = (r, lines)"
    by (cases "print_icon_names w doc ?b []")
  from p l print_icon_names_append [of w doc ?b ?head]
  have "r = Inr ()" "out = ?head @ lines" by simp_all
  with resp doc l show ?thesis by simp
qed

theorem header_and_custom_lines_first_witness:
  "script (served 200 px500_yaml (DocDict [px500])) no_options =
     (0, [str_lit ''[icons]'', icon_line (str_lit ''alacritty'') [0xF120],
          icon_line (str_lit ''kitty'') [0xF120], icon_line (str_lit ''500px'') [0xF26E]]) \<and>
   (\<exists>resp doc lines.
      requests_get (served 200 px500_yaml (DocDict [px500])) (URI (revision (parse_args no_options))) = Inr resp \<and>
      yaml_full_load (served 200 px500_yaml (DocDict [px500])) (response_text resp) = Inr doc \<and>
      print_icon_names (served 200 px500_yaml (DocDict [px500])) doc (include_aliases (parse_args no_options)) []
        = (Inr (), lines) \<and>
      [str_lit ''[icons]'', icon_line (str_lit ''alacritty'') [0xF120],
       icon_line (str_lit ''kitty'') [0xF120], icon_line (str_lit ''500px'') [0xF26E]]
      = str_lit ''[icons]'' # icon_line (str_lit ''alacritty'') [0xF120] #
        icon_line (str_lit ''kitty'') [0xF120] # lines)"
proof -
  have run: "script (served 200 px500_yaml (DocDict [px500])) no_options =
     (0, [str_lit ''[icons]'', icon_line (str_lit ''alacritty'') [0xF120],
          icon_line (str_lit ''kitty'') [0xF120], icon_line (str_lit ''500px'') [0xF26E]])"
    by (simp add: script_cases main_cases served_def example_world_simps no_options_def
        parse_args_def print_icon_names_def print_items_px500_plain)
  show ?thesis
    using run header_and_custom_lines_first [OF run] by simp
qed

section \<open>Failures before the first line, and the address fetched\<close>

lemma transform_loop_cong:
  assumes "unicode_isspace w' = unicode_isspace w" "unicode_todecimal w' = unicode_todecimal w"
  shows "transform_loop w' u = transform_loop w u"
  by (induction u) (simp_all add: assms split: option.splits)

lemma unicode_symbol_cong:
  assumes "unicode_isspace w' = unicode_isspace w" "unicode_todecimal w' = unicode_todecimal w"
  shows "unicode_symbol w' h = unicode_symbol w h"
  by (cases h)
    (simp_all add: unicode_symbol_def py_int16_def transform_decimal_and_space_def
      transform_loop_cong [OF assms])

lemma print_names_cong:
  assumes "unicode_isspace w' = unicode_isspace w" "unicode_todecimal w' = unicode_todecimal w"
  shows "print_names w' ic ns out = print_names w ic ns out"
  by (induction ns arbitrary: out)
    (simp_all add: unicode_symbol_cong [OF assms] split: sum.splits)

lemma print_items_cong:
  assumes "unicode_isspace w' = unicode_isspace w" "unicode_todecimal w' = unicode_todecimal w"
  shows "print_items w' b items out = print_items w b items out"
  by (induction items arbitrary: out)
    (auto simp: print_icon_def print_names_cong [OF assms] split: sum.splits prod.splits)

lemma print_icon_names_cong:
  assumes "unicode_isspace w' = unicode_isspace w" "unicode_todecimal w' = unicode_todecimal w"
  shows "print_icon_names w' doc b out = print_icon_names w doc b out"
  by (simp add: print_icon_names_def print_items_cong [OF assms] split: document.splits)

lemma main_cong:
  assumes "unicode_isspace w' = unicode_isspace w" "unicode_todecimal w' = unicode_todecimal w"
    and "yaml_full_load w' = yaml_full_load w"
    and "case requests_get w uri of Inl e \<Rightarrow> requests_get w' uri = Inl e
         | Inr resp \<Rightarrow> \<exists>resp'. requests_get w' uri = Inr resp' \<and> response_text resp' = response_text resp"
  shows "main w' uri v b out = main w uri v b out"
  using assms(3,4)
  by (auto simp: main_cases print_icon_names_cong [OF assms(1,2)] split: sum.splits)

lemma served_simps:
  "requests_get (served status body doc) uri = Inr \<lparr>status_code = status, response_text = body\<rparr>"
  "yaml_full_load (served status body doc) t = Inr doc"
  by (simp_all add: served_def example_world_simps)

text \<open>
  Claim C9. When the request raises, or the parser raises on the response body, the run
  ends with exit status 1 and has printed nothing. A failed run that has printed something
  got its document, and the failure is the failure of \<open>print_icon_names\<close> on it, started
  after the header and the two custom lines.
\<close>

theorem fetch_or_parse_failure_prints_nothing:
  "(requests_get w (URI (revision (parse_args cl))) = Inl e \<longrightarrow> script w cl = (1, [])) \<and>
   (requests_get w (URI (revision (parse_args cl))) = Inr resp \<and>
      yaml_full_load w (response_text resp) = Inl e \<longrightarrow> script w cl = (1, [])) \<and>
   (script w cl = (1, out) \<and> out \<noteq> [] \<longrightarrow>
      (\<exists>resp doc e.
         requests_get w (URI (revision (parse_args cl))) = Inr resp \<and>
         yaml_full_load w (response_text resp) = Inr doc \<and>
         print_icon_names w doc (include_aliases (parse_args cl))
           [str_lit ''[icons]'', icon_line (str_lit ''alacritty'') [0xF120],
            icon_line (str_lit ''kitty'') [0xF120]] = (Inl e, out)))"
proof (intro conjI impI)
  assume "requests_get w (URI (revision (parse_args cl))) = Inl e"
  then show "script w cl = (1, [])" by (simp add: script_cases main_cases)
next
  assume "requests_get w (URI (revision (parse_args cl))) = Inr resp \<and>
      yaml_full_load w (response_text resp) = Inl e"
  then show "script w cl = (1, [])" by (simp add: script_cases main_cases)
next
  let ?uri = "URI (revision (parse_args cl))"
  let ?b = "include_aliases (parse_args cl)"
  assume a: "script w cl = (1, out) \<and> out \<noteq> []"
  then obtain e where m: "main w ?uri (revision (parse_args cl)) ?b [] = (Inl e, out)"
    by (auto simp: script_cases split: prod.splits sum.splits)
  from a m obtain resp where resp: "requests_get w ?uri = Inr resp"
    by (cases "requests_get w ?uri") (auto simp: main_cases)
  from a m resp obtain doc where doc: "yaml_full_load w (response_text resp) = Inr doc"
    by (cases "yaml_full_load w (response_text resp)") (auto simp: main_cases)
  from m resp doc show "\<exists>resp doc e.
         requests_get w ?uri = Inr resp \<and>
         yaml_full_load w (response_text resp) = Inr doc \<and>
         print_icon_names w doc ?b
           [str_lit ''[icons]'', icon_line (str_lit ''alacritty'') [0xF120],
            icon_line (str_lit ''kitty'') [0xF120]] = (Inl e, out)"
    by (simp add: main_cases)
qed

lemma unicode_symbol_zz: "unicode_symbol w (HexStr (str_lit ''zz'')) = Inl ValueError"
  by (simp add: unicode_symbol_def py_int16_def transform_decimal_and_space_def
      long_from_string16_def skip_sign_def py_isspace_def digit_or_underscore_def
      digit_value_def str_lit_def)

lemma print_items_failing_entry:
  "print_items w b [failing_entry] out = (Inl (if b then KeyError else ValueError), out)"
  by (simp add: failing_entry_def print_icon_def icon_names_def search_terms_def
      getitem_search_def getitem_unicode_def unicode_symbol_zz)

theorem fetch_or_parse_failure_prints_nothing_witness:
  "(requests_get offline (URI (revision (parse_args no_options))) = Inl ConnectionError \<and>
      script offline no_options = (1, [])) \<and>
   (requests_get (example_world (Inr \<lparr>status_code = 200, response_text = str_lit ''{''\<rparr>) (Inl YAMLError))
        (URI (revision (parse_args no_options)))
      = Inr \<lparr>status_code = 200, response_text = str_lit ''{''\<rparr> \<and>
    yaml_full_load (example_world (Inr \<lparr>status_code = 200, response_text = str_lit ''{''\<rparr>) (Inl YAMLError))
        (response_text \<lparr>status_code = 200, response_text = str_lit ''{''\<rparr>) = Inl YAMLError \<and>
    script (example_world (Inr \<lparr>status_code = 200, response_text = str_lit ''{''\<rparr>) (Inl YAMLError))
        no_options = (1, [])) \<and>
   (script (served 200 failing_yaml (DocDict [failing_entry])) no_options
      = (1, [str_lit ''[icons]'', icon_line (str_lit ''alacritty'') [0xF120],
             icon_line (str_lit ''kitty'') [0xF120]]) \<and>
    (\<exists>resp doc e.
       requests_get (served 200 failing_yaml (DocDict [failing_entry])) (URI (revision (parse_args no_options))) = Inr resp \<and>
       yaml_full_load (served 200 failing_yaml (DocDict [failing_entry])) (response_text resp) = Inr doc \<and>
       print_icon_names (served 200 failing_yaml (DocDict [failing_entry])) doc (include_aliases (parse_args no_options))
         [str_lit ''[icons]'', icon_line (str_lit ''alacritty'') [0xF120],
          icon_line (str_lit ''kitty'') [0xF120]]
       = (Inl e, [str_lit ''[icons]'', icon_line (str_lit ''alacritty'') [0xF120],
                  icon_line (str_lit ''kitty'') [0xF120]])))"
proof (intro conjI)
  let ?w2 = "example_world (Inr \<lparr>status_code = 200, response_text = str_lit ''{''\<rparr>) (Inl YAMLError)"
  let ?w3 = "served 200 failing_yaml (DocDict [failing_entry])"
  let ?head = "[str_lit ''[icons]'', icon_line (str_lit ''alacritty'') [0xF120],
                icon_line (str_lit ''kitty'') [0xF120]]"
  show g1: "requests_get offline (URI (revision (parse_args no_options))) = Inl ConnectionError"
    by (simp add: offline_def example_world_simps)
  show "script offline no_options = (1, [])"
    using fetch_or_parse_failure_prints_nothing
      [where w = offline and cl = no_options and e = ConnectionError] g1
    by simp
  show g2: "requests_get ?w2 (URI (revision (parse_args no_options)))
      = Inr \<lparr>status_code = 200, response_text = str_lit ''{''\<rparr>"
    by (simp add: example_world_simps)
  show l2: "yaml_full_load ?w2 (response_text \<lparr>status_code = 200, response_text = str_lit ''{''\<rparr>)
      = Inl YAMLError"
    by (simp add: example_world_simps)
  show "script ?w2 no_options = (1, [])"
    using fetch_or_parse_failure_prints_nothing
      [where w = ?w2 and cl = no_options and e = YAMLError
         and resp = "\<lparr>status_code = 200, response_text = str_lit ''{''\<rparr>"] g2 l2
    by simp
  show run: "script ?w3 no_options = (1, ?head)"
    by (simp add: script_cases main_cases served_simps print_icon_names_def
        print_items_failing_entry no_options_def parse_args_def)
  have ne: "?head \<noteq> []" by simp
  show "\<exists>resp doc e.
       requests_get ?w3 (URI (revision (parse_args no_options))) = Inr resp \<and>
       yaml_full_load ?w3 (response_text resp) = Inr doc \<and>
       print_icon_names ?w3 doc (include_aliases (parse_args no_options)) ?head = (Inl e, ?head)"
    using fetch_or_parse_failure_prints_nothing
      [where w = ?w3 and cl = no_options and out = ?head] run ne
    by blast
qed

text \<open>
  Claim C8. The value given to \<^verbatim>\<open>--revision\<close> is put, unchanged, between
  \<^verbatim>\<open>https://raw.githubusercontent.com/FortAwesome/Font-Awesome/\<close> and
  \<^verbatim>\<open>/metadata/icons.yml\<close>; without the option the revision is \<^verbatim>\<open>master\<close>; and the
  run asks the network for that address and no other.
\<close>

theorem revision_substituted_into_uri:
  "URI (revision (parse_args \<lparr>revision_given = Some r, include_aliases_given = b\<rparr>))
     = str_lit ''https://raw.githubusercontent.com/FortAwesome/Font-Awesome/'' @ r @
       str_lit ''/metadata/icons.yml'' \<and>
   revision (parse_args \<lparr>revision_given = None, include_aliases_given = b\<rparr>) = str_lit ''master'' \<and>
   URI (revision (parse_args \<lparr>revision_given = None, include_aliases_given = b\<rparr>))
     = str_lit ''https://raw.githubusercontent.com/FortAwesome/Font-Awesome/master/metadata/icons.yml'' \<and>
   script w cl =
     script (w\<lparr>requests_get :=
                 (\<lambda>uri. if uri = URI (revision (parse_args cl)) then requests_get w uri
                        else Inl ConnectionError)\<rparr>) cl"
proof (intro conjI)
  show "URI (revision (parse_args \<lparr>revision_given = Some r, include_aliases_given = b\<rparr>))
     = str_lit ''https://raw.githubusercontent.com/FortAwesome/Font-Awesome/'' @ r @
       str_lit ''/metadata/icons.yml''"
    by (simp add: URI_def parse_args_def str_lit_def)
  show "revision (parse_args \<lparr>revision_given = None, include_aliases_given = b\<rparr>) = str_lit ''master''"
    by (simp add: parse_args_def)
  show "URI (revision (parse_args \<lparr>revision_given = None, include_aliases_given = b\<rparr>))
     = str_lit ''https://raw.githubusercontent.com/FortAwesome/Font-Awesome/master/metadata/icons.yml''"
    by (simp add: URI_def parse_args_def str_lit_def)
  show "script w cl =
     script (w\<lparr>requests_get :=
                 (\<lambda>uri. if uri = URI (revision (parse_args cl)) then requests_get w uri
                        else Inl ConnectionError)\<rparr>) cl"
    unfolding script_cases
    by (subst main_cong [where w = w]) (simp_all split: sum.splits)
qed

section \<open>The lines of the catalog\<close>

lemma unicode_symbol_single: "unicode_symbol w h = Inr s \<Longrightarrow> \<exists>c. s = [c]"
  by (auto simp: unicode_symbol_def py_chr_def split: sum.splits if_splits)

lemma print_names_ok:
  assumes "getitem_unicode ic = Inr h" "unicode_symbol w h = Inr s"
  shows "print_names w ic ns out = (Inr (), out @ map (\<lambda>n. icon_line n s) ns)"
  by (induction ns arbitrary: out) (simp_all add: assms py_print_def)

lemma print_names_lines:
  "\<exists>lines. snd (print_names w ic ns out) = out @ lines \<and>
     (\<forall>l \<in> set lines. \<exists>n c. n \<in> set ns \<and> l = icon_line n [c])"
proof (cases "getitem_unicode ic")
  case (Inl e)
  then show ?thesis by (cases ns) auto
next
  case (Inr h)
  show ?thesis
  proof (cases "unicode_symbol w h")
    case (Inl e)
    with Inr show ?thesis by (cases ns) auto
  next
    case s: (Inr s)
    then obtain c where "s = [c]" using unicode_symbol_single by blast
    then show ?thesis using print_names_ok [OF Inr s, of ns out] by auto
  qed
qed

lemma print_icon_lines:
  "\<exists>lines. snd (print_icon w b n ic out) = out @ lines \<and>
     (\<forall>l \<in> set lines. \<exists>x c. x \<noteq> [] \<and> l = icon_line x [c])"
proof (cases "icon_names n ic b")
  case (Inl e)
  then show ?thesis by (simp add: print_icon_def)
next
  case (Inr names)
  obtain lines where l: "snd (print_names w ic (filter (\<lambda>x. x \<noteq> []) names) out) = out @ lines"
    "\<forall>l \<in> set lines. \<exists>x c. x \<in> set (filter (\<lambda>x. x \<noteq> []) names) \<and> l = icon_line x [c]"
    using print_names_lines by blast
  from l(2) have "\<forall>l \<in> set lines. \<exists>x c. x \<noteq> [] \<and> l = icon_line x [c]" by fastforce
  with l(1) Inr show ?thesis by (simp add: print_icon_def)
qed

lemma print_items_lines:
  "\<exists>lines. snd (print_items w b items out) = out @ lines \<and>
     (\<forall>l \<in> set lines. \<exists>x c. x \<noteq> [] \<and> l = icon_line x [c])"
proof (induction items arbitrary: out)
  case Nil
  then show ?case by simp
next
  case (Cons p items)
  obtain n ic where p: "p = (n, ic)" by (cases p)
  obtain r out1 where r: "print_icon w b n ic out = (r, out1)" by (cases "print_icon w b n ic out")
  obtain l1 where l1: "out1 = out @ l1" "\<forall>l \<in> set l1. \<exists>x c. x \<noteq> [] \<and> l = icon_line x [c]"
    using print_icon_lines [of w b n ic out] r by auto
  show ?case
  proof (cases r)
    case (Inl e)
    then show ?thesis using p r l1 by auto
  next
    case (Inr u)
    obtain l2 where l2: "snd (print_items w b items out1) = out1 @ l2"
      "\<forall>l \<in> set l2. \<exists>x c. x \<noteq> [] \<and> l = icon_line x [c]"
      using Cons.IH by blast
    have "snd (print_items w b (p # items) out) = out @ (l1 @ l2)"
      using p r Inr l1(1) l2(1) by simp
    moreover have "\<forall>l \<in> set (l1 @ l2). \<exists>x c. x \<noteq> [] \<and> l = icon_line x [c]"
      using l1(2) l2(2) by auto
    ultimately show ?thesis by blast
  qed
qed

lemma length_icon_line: "length (icon_line n s) = length n + length s + 11"
  by (simp add: icon_line_def str_lit_def)

lemma icon_line_empty_name: "n \<noteq> [] \<Longrightarrow> icon_line n [c] \<noteq> icon_line [] [c']"
proof
  assume "n \<noteq> []" "icon_line n [c] = icon_line [] [c']"
  then have "length (icon_line n [c]) = length (icon_line [] [c'])" by simp
  with \<open>n \<noteq> []\<close> show False by (simp add: length_icon_line)
qed

text \<open>
  Claim C7. Whatever the document and the value of \<^verbatim>\<open>include_aliases\<close>, and whether
  the run of \<open>print_icon_names\<close> ends well or not, every line it adds to the output is the
  line of a non-empty name with a one-character symbol; none is the line of the empty name.
\<close>

theorem no_line_for_empty_name:
  "\<exists>lines. snd (print_icon_names w doc b out) = out @ lines \<and>
     (\<forall>l \<in> set lines. (\<exists>name c. name \<noteq> [] \<and> l = icon_line name [c]) \<and>
                        (\<forall>c. l \<noteq> icon_line [] [c]))"
proof (cases doc)
  case DocObj
  then show ?thesis by (simp add: print_icon_names_def)
next
  case (DocDict items)
  obtain lines where l: "snd (print_items w b items out) = out @ lines"
    "\<forall>l \<in> set lines. \<exists>x c. x \<noteq> [] \<and> l = icon_line x [c]"
    using print_items_lines by blast
  have "\<forall>l \<in> set lines. (\<exists>name c. name \<noteq> [] \<and> l = icon_line name [c]) \<and>
                        (\<forall>c. l \<noteq> icon_line [] [c])"
  proof
    fix l assume "l \<in> set lines"
    then obtain x c where x: "x \<noteq> []" "l = icon_line x [c]" using l(2) by blast
    have "\<forall>c'. l \<noteq> icon_line [] [c']"
      unfolding x(2) using icon_line_empty_name [OF x(1)] by simp
    with x show "(\<exists>name c. name \<noteq> [] \<and> l = icon_line name [c]) \<and>
                 (\<forall>c. l \<noteq> icon_line [] [c])" by blast
  qed
  with l(1) DocDict show ?thesis by (simp add: print_icon_names_def)
qed

lemma print_icon_as_item:
  assumes "unicode_symbol w (HexStr (entry_unicode e)) = Inr s"
  shows "print_icon w b (fst (as_item e)) (snd (as_item e)) out =
     (Inr (), out @ (if entry_name e = [] then [] else [icon_line (entry_name e) s]) @
                    (if b then map (\<lambda>a. icon_line a s) (filter (\<lambda>a. a \<noteq> []) (alias_list e))
                     else []))"
proof -
  let ?n = "fst (as_item e)" and ?ic = "snd (as_item e)"
  have u: "getitem_unicode ?ic = Inr (HexStr (entry_unicode e))"
    by (simp add: as_item_def getitem_unicode_def)
  have n: "icon_names ?n ?ic b = Inr (entry_name e # (if b then alias_list e else []))"
    by (simp add: as_item_def icon_names_def search_terms_def getitem_search_def
        getitem_terms_def alias_list_def split: option.splits)
  have "print_icon w b ?n ?ic out =
          print_names w ?ic (filter (\<lambda>x. x \<noteq> []) (entry_name e # (if b then alias_list e else []))) out"
    unfolding print_icon_def n by simp
  also have "\<dots> = (Inr (), out @ map (\<lambda>n. icon_line n s)
                 (filter (\<lambda>x. x \<noteq> []) (entry_name e # (if b then alias_list e else []))))"
    by (rule print_names_ok [OF u assms])
  also have "map (\<lambda>n. icon_line n s)
                 (filter (\<lambda>x. x \<noteq> []) (entry_name e # (if b then alias_list e else [])))
      = (if entry_name e = [] then [] else [icon_line (entry_name e) s]) @
        (if b then map (\<lambda>a. icon_line a s) (filter (\<lambda>a. a \<noteq> []) (alias_list e)) else [])"
    by simp
  finally show ?thesis .
qed

lemma print_items_as_items:
  assumes "\<forall>(e, s) \<in> set es. unicode_symbol w (HexStr (entry_unicode e)) = Inr s"
  shows "print_items w b (map (\<lambda>(e, s). as_item e) es) out =
     (Inr (), out @ concat (map (\<lambda>(e, s).
        (if entry_name e = [] then [] else [icon_line (entry_name e) s]) @
        (if b then map (\<lambda>a. icon_line a s) (filter (\<lambda>a. a \<noteq> []) (alias_list e)) else [])) es))"
  using assms
proof (induction es arbitrary: out)
  case Nil
  then show ?case by simp
next
  case (Cons p es)
  obtain e s where p: "p = (e, s)" by (cases p)
  have s: "unicode_symbol w (HexStr (entry_unicode e)) = Inr s" using Cons.prems p by simp
  have rest: "\<forall>(e, s) \<in> set es. unicode_symbol w (HexStr (entry_unicode e)) = Inr s"
    using Cons.prems by simp
  obtain n ic where i: "as_item e = (n, ic)" by (cases "as_item e")
  let ?l = "\<lambda>(e, s). (if entry_name e = [] then [] else [icon_line (entry_name e) s]) @
      (if b then map (\<lambda>a. icon_line a s) (filter (\<lambda>a. a \<noteq> []) (alias_list e)) else [])"
  have one: "print_icon w b n ic out = (Inr (), out @ ?l (e, s))"
    using print_icon_as_item [OF s, of b out] i by simp
  have "print_items w b ((n, ic) # map (\<lambda>(e, s). as_item e) es) out
          = print_items w b (map (\<lambda>(e, s). as_item e) es) (out @ ?l (e, s))"
    unfolding print_items.simps one by simp
  then have "print_items w b (map (\<lambda>(e, s). as_item e) (p # es)) out
          = print_items w b (map (\<lambda>(e, s). as_item e) es) (out @ ?l (e, s))"
    by (simp only: p i list.map prod.case)
  also have "\<dots> = (Inr (), (out @ ?l (e, s)) @ concat (map ?l es))"
    by (rule Cons.IH [OF rest])
  finally show ?case unfolding p by simp
qed

lemma print_blank_entry:
  "print_icon_names w (DocDict [as_item blank_entry]) b out =
     (Inr (), out @ (if b then [icon_line (str_lit ''px'') [0xF26E]] else []))"
proof -
  have "\<forall>(e, s) \<in> set [(blank_entry, [0xF26E])]. unicode_symbol w (HexStr (entry_unicode e)) = Inr s"
    by (simp add: blank_entry_def unicode_symbol_f26e)
  from print_items_as_items [OF this, of b out] show ?thesis
    by (simp add: print_icon_names_def) (simp add: blank_entry_def alias_list_def)
qed

theorem no_line_for_empty_name_witness:
  "snd (print_icon_names offline (DocDict [as_item blank_entry]) True [])
     = [] @ [icon_line (str_lit ''px'') [0xF26E]] \<and>
   (\<exists>name c. name \<noteq> [] \<and> icon_line (str_lit ''px'') [0xF26E] = icon_line name [c]) \<and>
   (\<forall>c. icon_line (str_lit ''px'') [0xF26E] \<noteq> icon_line [] [c])"
proof -
  have run: "snd (print_icon_names offline (DocDict [as_item blank_entry]) True [])
               = [icon_line (str_lit ''px'') [0xF26E]]"
    by (simp add: print_blank_entry)
  from no_line_for_empty_name [of offline "DocDict [as_item blank_entry]" True "[]"]
  obtain lines where
    "snd (print_icon_names offline (DocDict [as_item blank_entry]) True []) = [] @ lines"
    "\<forall>l \<in> set lines. (\<exists>name c. name \<noteq> [] \<and> l = icon_line name [c]) \<and>
                        (\<forall>c. l \<noteq> icon_line [] [c])"
    by blast
  with run show ?thesis by simp
qed




section \<open>Entries without aliases\<close>












section \<open>The status of the response\<close>

text \<open>
  Claim C5 fails as stated. The request completes with status 404 and the body \<^verbatim>\<open>{}\<close>,
  which the parser loads as the empty mapping; the run prints the header and the two
  custom lines and exits with status 0.
\<close>

theorem error_status_counterexample:
  "requests_get (served 404 (str_lit ''{}'') (DocDict [])) (URI (revision (parse_args no_options)))
     = Inr \<lparr>status_code = 404, response_text = str_lit ''{}''\<rparr> \<and>
   yaml_full_load (served 404 (str_lit ''{}'') (DocDict [])) (str_lit ''{}'') = Inr (DocDict []) \<and>
   script (served 404 (str_lit ''{}'') (DocDict [])) no_options
     = (0, [str_lit ''[icons]'', icon_line (str_lit ''alacritty'') [0xF120],
            icon_line (str_lit ''kitty'') [0xF120]])"
  by (simp add: script_cases main_cases served_simps print_icon_names_def)

text \<open>
  Claim C5, as amended. The run never looks at the status of the response: with any other
  status on the same body, exit status and output are the same. When the request
  completes, the run ends with exit status 1 exactly when the parser raises on the body or
  \<open>print_icon_names\<close> raises on the loaded document.
\<close>

theorem status_code_ignored:
  "script (with_status f w) cl = script w cl \<and>
   (requests_get w (URI (revision (parse_args cl))) = Inr resp \<longrightarrow>
      (fst (script w cl) = 1 \<longleftrightarrow>
         (\<exists>e. yaml_full_load w (response_text resp) = Inl e) \<or>
         (\<exists>doc e out. yaml_full_load w (response_text resp) = Inr doc \<and>
            print_icon_names w doc (include_aliases (parse_args cl))
              [str_lit ''[icons]'', icon_line (str_lit ''alacritty'') [0xF120],
               icon_line (str_lit ''kitty'') [0xF120]] = (Inl e, out))))"
proof (intro conjI impI)
  show "script (with_status f w) cl = script w cl"
    unfolding script_cases
    by (subst main_cong [where w = w]) (simp_all add: with_status_def split: sum.splits)
next
  let ?head = "[str_lit ''[icons]'', icon_line (str_lit ''alacritty'') [0xF120],
                icon_line (str_lit ''kitty'') [0xF120]]"
  let ?b = "include_aliases (parse_args cl)"
  assume r: "requests_get w (URI (revision (parse_args cl))) = Inr resp"
  show "fst (script w cl) = 1 \<longleftrightarrow>
         (\<exists>e. yaml_full_load w (response_text resp) = Inl e) \<or>
         (\<exists>doc e out. yaml_full_load w (response_text resp) = Inr doc \<and>
            print_icon_names w doc ?b ?head = (Inl e, out))"
  proof (cases "yaml_full_load w (response_text resp)")
    case (Inl e)
    then show ?thesis using r by (simp add: script_cases main_cases)
  next
    case (Inr doc)
    obtain x out where p: "print_icon_names w doc ?b ?head = (x, out)"
      by (cases "print_icon_names w doc ?b ?head")
    show ?thesis using r Inr p by (cases x) (simp_all add: script_cases main_cases)
  qed
qed

theorem status_code_ignored_witness:
  "requests_get (served 503 failing_yaml (DocDict [failing_entry])) (URI (revision (parse_args no_options)))
     = Inr \<lparr>status_code = 503, response_text = failing_yaml\<rparr> \<and>
   fst (script (served 503 failing_yaml (DocDict [failing_entry])) no_options) = 1 \<and>
   script (with_status (\<lambda>c. 200) (served 503 failing_yaml (DocDict [failing_entry]))) no_options
     = script (served 503 failing_yaml (DocDict [failing_entry])) no_options"
proof -
  let ?w = "served 503 failing_yaml (DocDict [failing_entry])"
  have r: "requests_get ?w (URI (revision (parse_args no_options)))
     = Inr \<lparr>status_code = 503, response_text = failing_yaml\<rparr>"
    by (simp add: served_simps)
  have p: "print_icon_names ?w (DocDict [failing_entry]) (include_aliases (parse_args no_options))
              [str_lit ''[icons]'', icon_line (str_lit ''alacritty'') [0xF120],
               icon_line (str_lit ''kitty'') [0xF120]]
            = (Inl ValueError, [str_lit ''[icons]'', icon_line (str_lit ''alacritty'') [0xF120],
               icon_line (str_lit ''kitty'') [0xF120]])"
    by (simp add: print_icon_names_def print_items_failing_entry no_options_def parse_args_def)
  show ?thesis
    using r p status_code_ignored [of "\<lambda>c. 200" ?w no_options
        "\<lparr>status_code = 503, response_text = failing_yaml\<rparr>"]
    by (simp add: served_simps)
qed

section \<open>The strings that decode\<close>

lemma digit_or_underscore_iff: "digit_or_underscore c \<longleftrightarrow> is_hex_digit c \<or> c = 95"
  by (simp add: digit_or_underscore_def is_hex_digit_iff)

lemma not_hex_digit_95 [simp]: "\<not> is_hex_digit 95"
  by (simp add: is_hex_digit_def)

lemma digit_group_run:
  "digit_group g \<Longrightarrow>
     g \<noteq> [] \<and> list_all digit_or_underscore g \<and> hd g \<noteq> 95 \<and> last g \<noteq> 95 \<and> \<not> double_underscore g"
proof (induction rule: digit_group.induct)
  case (one c)
  then show ?case by (auto simp: digit_or_underscore_iff)
next
  case (more c g)
  then obtain x g' where g: "g = x # g'" by (cases g) auto
  from more have "c \<noteq> 95" by auto
  with more g show ?case by (auto simp: digit_or_underscore_iff)
next
  case (underscore c g)
  then obtain x g' where g: "g = x # g'" by (cases g) auto
  from underscore have "c \<noteq> 95" by auto
  with underscore g show ?case by (auto simp: digit_or_underscore_iff)
qed

lemma run_digit_group:
  "g \<noteq> [] \<Longrightarrow> list_all digit_or_underscore g \<Longrightarrow> hd g \<noteq> 95 \<Longrightarrow> last g \<noteq> 95 \<Longrightarrow>
   \<not> double_underscore g \<Longrightarrow> digit_group g"
proof (induction g rule: length_induct)
  case (1 g)
  from 1(2) obtain c rest where g: "g = c # rest" by (cases g) auto
  from 1(3,4) g have c: "is_hex_digit c" by (simp add: digit_or_underscore_iff)
  show ?case
  proof (cases rest)
    case Nil
    with g c show ?thesis by (simp add: digit_group.one)
  next
    case (Cons x rest')
    show ?thesis
    proof (cases "x = 95")
      case False
      have "digit_group rest"
        using 1(1) [rule_format, of rest] 1(2-6) g Cons False by simp
      with c g show ?thesis by (simp add: digit_group.more)
    next
      case True
      from 1(5) g Cons True have ne: "rest' \<noteq> []" by auto
      then obtain y rest'' where r: "rest' = y # rest''" by (cases rest') auto
      from 1(6) g Cons True r have y: "y \<noteq> 95" by auto
      have "digit_group rest'"
        using 1(1) [rule_format, of rest'] 1(2-6) g Cons True r y by simp
      with c g Cons True show ?thesis by (simp add: digit_group.underscore)
    qed
  qed
qed

lemma digit_group_iff:
  "digit_group g \<longleftrightarrow>
     g \<noteq> [] \<and> list_all digit_or_underscore g \<and> hd g \<noteq> 95 \<and> last g \<noteq> 95 \<and> \<not> double_underscore g"
  using digit_group_run run_digit_group by blast

lemma digits_of_run:
  "list_all digit_or_underscore g \<Longrightarrow> list_all is_hex_digit (filter (\<lambda>c. c \<noteq> 95) g)"
  by (induction g) (auto simp: digit_or_underscore_iff)

lemma skip_sign_cases:
  "\<exists>sg. sg \<in> {[], str_lit ''+'', str_lit ''-''} \<and> s = sg @ snd (skip_sign s) \<and>
        fst (skip_sign s) = (if sg = str_lit ''-'' then - 1 else 1)"
  by (cases s) (auto simp: skip_sign_def str_lit_def)

lemma skip_prefix16_cases:
  "\<exists>p. p \<in> {[], str_lit ''0x'', str_lit ''0X'', str_lit ''0x_'', str_lit ''0X_''} \<and>
       s = p @ skip_prefix16 s"
  by (cases s rule: skip_prefix16.cases) (auto simp: str_lit_def split: list.splits)

lemma long_from_string16_literal:
  assumes "long_from_string16 a = Inr v"
  shows "int16_literal a v"
proof -
  let ?l = "takeWhile py_isspace a" and ?s1 = "dropWhile py_isspace a"
  let ?s2 = "snd (skip_sign ?s1)"
  let ?s3 = "skip_prefix16 ?s2"
  let ?run = "takeWhile digit_or_underscore ?s3" and ?rest = "dropWhile digit_or_underscore ?s3"
  from assms have ok: "?run \<noteq> []" "hd ?run \<noteq> 95" "\<not> double_underscore ?run" "last ?run \<noteq> 95"
    and rest: "dropWhile py_isspace ?rest = []"
    and v: "v = fst (skip_sign ?s1) * digits_value (filter (\<lambda>c. c \<noteq> 95) ?run)"
    by (auto simp: long_from_string16_def Let_def split: prod.splits if_splits)
  obtain sg where sg: "sg \<in> {[], str_lit ''+'', str_lit ''-''}" "?s1 = sg @ ?s2"
    "fst (skip_sign ?s1) = (if sg = str_lit ''-'' then - 1 else 1)"
    using skip_sign_cases [of ?s1] by blast
  obtain p where p: "p \<in> {[], str_lit ''0x'', str_lit ''0X'', str_lit ''0x_'', str_lit ''0X_''}"
    "?s2 = p @ ?s3"
    using skip_prefix16_cases [of ?s2] by blast
  have all: "list_all digit_or_underscore ?run"
    by (simp add: list_all_iff) (meson set_takeWhileD)
  have g: "digit_group ?run" using ok all by (simp add: digit_group_iff)
  have a: "a = ?l @ sg @ p @ ?run @ ?rest"
  proof -
    have "a = ?l @ ?s1" by simp
    also have "?s1 = sg @ p @ ?s3" using sg(2) p(2) by simp
    also have "?s3 = ?run @ ?rest" by simp
    finally show ?thesis by simp
  qed
  have l: "list_all py_isspace ?l" by (simp add: list_all_iff) (meson set_takeWhileD)
  have r: "list_all py_isspace ?rest" using rest by (simp add: list_all_iff)
  have "v = (if sg = str_lit ''-'' then - 1 else 1) * int (hex_value (filter (\<lambda>c. c \<noteq> 95) ?run))"
    using v sg(3) digits_value_hex [OF digits_of_run [OF all]] by simp
  with a l r sg(1) p(1) g show ?thesis
    unfolding int16_literal_def by blast
qed

lemma space_not_digit: "py_isspace c \<Longrightarrow> \<not> digit_or_underscore c"
  by (auto simp: py_isspace_def digit_or_underscore_def digit_value_def)

lemma run_then_spaces:
  assumes "list_all digit_or_underscore g" "list_all py_isspace r"
  shows "takeWhile digit_or_underscore (g @ r) = g" "dropWhile digit_or_underscore (g @ r) = r"
proof -
  have g: "\<And>x. x \<in> set g \<Longrightarrow> digit_or_underscore x" using assms(1) by (simp add: list_all_iff)
  have t: "takeWhile digit_or_underscore r = []" and d: "dropWhile digit_or_underscore r = r"
    using assms(2) by (cases r; simp add: space_not_digit)+
  show "takeWhile digit_or_underscore (g @ r) = g" using g t by (simp add: takeWhile_append2)
  show "dropWhile digit_or_underscore (g @ r) = r" using g d by (simp add: dropWhile_append2)
qed

lemma dropWhile_head: "x \<noteq> [] \<Longrightarrow> \<not> P (hd x) \<Longrightarrow> dropWhile P x = x"
  by (cases x) auto

lemma skip_sign_none: "y \<noteq> [] \<Longrightarrow> hd y \<noteq> 43 \<Longrightarrow> hd y \<noteq> 45 \<Longrightarrow> skip_sign y = (1, y)"
  by (cases y) (auto simp: skip_sign_def)

lemma skip_prefix16_none:
  assumes "digit_group g" "list_all py_isspace r"
  shows "skip_prefix16 (g @ r) = g @ r"
proof -
  from digit_group_run [OF assms(1)] obtain c g' where g: "g = c # g'"
    and all: "list_all digit_or_underscore g" by (cases g) auto
  show ?thesis
  proof (cases "g' @ r")
    case Nil
    with g show ?thesis by simp
  next
    case (Cons d t)
    have "d \<noteq> 120 \<and> d \<noteq> 88"
    proof (cases g')
      case Nil
      with Cons assms(2) have "py_isspace d" by auto
      then show ?thesis by (auto simp: py_isspace_def)
    next
      case (Cons d' g'')
      with \<open>g' @ r = d # t\<close> all g have "digit_or_underscore d" by auto
      then show ?thesis by (auto simp: digit_or_underscore_def digit_value_def)
    qed
    with g Cons show ?thesis by simp
  qed
qed

lemma literal_long_from_string16:
  assumes "int16_literal a v"
  shows "long_from_string16 a = Inr v"
proof -
  from assms obtain l sg p g r where a: "a = l @ sg @ p @ g @ r"
    and l: "list_all py_isspace l" and r: "list_all py_isspace r"
    and sg: "sg \<in> {[], str_lit ''+'', str_lit ''-''}"
    and p: "p \<in> {[], str_lit ''0x'', str_lit ''0X'', str_lit ''0x_'', str_lit ''0X_''}"
    and g: "digit_group g"
    and v: "v = (if sg = str_lit ''-'' then - 1 else 1) * int (hex_value (filter (\<lambda>c. c \<noteq> 95) g))"
    unfolding int16_literal_def by blast
  from digit_group_run [OF g] have ne: "g \<noteq> []" and all: "list_all digit_or_underscore g"
    and ok: "hd g \<noteq> 95" "last g \<noteq> 95" "\<not> double_underscore g" by simp_all
  from ne obtain c g' where gc: "g = c # g'" by (cases g) auto
  have c: "is_hex_digit c" using all ok(1) gc by (simp add: digit_or_underscore_iff)
  note cf = hex_digit_facts [OF c] hex_digit_not_space [OF c]
  have s3: "skip_prefix16 (p @ g @ r) = g @ r"
    using p skip_prefix16_none [OF g r] cf gc by (auto simp: str_lit_def)
  have hp: "p @ g @ r \<noteq> []" "hd (p @ g @ r) \<noteq> 43" "hd (p @ g @ r) \<noteq> 45"
    "\<not> py_isspace (hd (p @ g @ r))"
    using p gc cf by (auto simp: str_lit_def py_isspace_def)
  have s2: "skip_sign (sg @ p @ g @ r) = ((if sg = str_lit ''-'' then - 1 else 1), p @ g @ r)"
  proof -
    consider "sg = []" | "sg = [43]" | "sg = [45]" using sg by (auto simp: str_lit_def)
    then show ?thesis
    proof cases
      case 1
      then show ?thesis using skip_sign_none [OF hp(1-3)] by (simp add: str_lit_def)
    next
      case 2
      then show ?thesis by (simp add: skip_sign_def str_lit_def)
    next
      case 3
      then show ?thesis by (simp add: skip_sign_def str_lit_def)
    qed
  qed
  have hs: "sg @ p @ g @ r \<noteq> []" "\<not> py_isspace (hd (sg @ p @ g @ r))"
    using sg hp by (auto simp: str_lit_def py_isspace_def)
  have s1: "dropWhile py_isspace a = sg @ p @ g @ r"
  proof -
    have "dropWhile py_isspace a = dropWhile py_isspace (sg @ p @ g @ r)"
      unfolding a using l by (simp add: dropWhile_append2 list_all_iff)
    then show ?thesis
      using dropWhile_head [of "sg @ p @ g @ r" py_isspace] hs by simp
  qed
  have tail: "dropWhile py_isspace r = []" using r by (simp add: list_all_iff)
  have val: "digits_value (filter (\<lambda>c. c \<noteq> 95) g) = int (hex_value (filter (\<lambda>c. c \<noteq> 95) g))"
    by (rule digits_value_hex [OF digits_of_run [OF all]])
  show ?thesis
    unfolding long_from_string16_def s1 s2
    using ne ok tail
    by (simp add: s3 run_then_spaces [OF all r] val v)
qed

lemma long_from_string16_iff: "long_from_string16 a = Inr v \<longleftrightarrow> int16_literal a v"
  using long_from_string16_literal literal_long_from_string16 by blast

lemma long_from_string16_error: "long_from_string16 a = Inl e \<Longrightarrow> e = ValueError"
  by (auto simp: long_from_string16_def Let_def split: prod.splits if_splits)

lemma transform_ascii: "list_all (\<lambda>c. c < 128) h \<Longrightarrow> transform_decimal_and_space w h = h"
  by (simp add: transform_decimal_and_space_def)

lemma unicode_symbol_iff:
  "unicode_symbol w (HexStr h) = Inr s \<longleftrightarrow>
     (\<exists>v. int16_literal (transform_decimal_and_space w h) v \<and> 0 \<le> v \<and> v < 0x110000 \<and>
          s = [nat v])"
proof (cases "long_from_string16 (transform_decimal_and_space w h)")
  case (Inl e)
  then have "\<And>v. \<not> int16_literal (transform_decimal_and_space w h) v"
    using literal_long_from_string16 by fastforce
  with Inl show ?thesis by (simp add: unicode_symbol_def py_int16_def)
next
  case (Inr i)
  then have "\<And>v. int16_literal (transform_decimal_and_space w h) v \<longleftrightarrow> v = i"
    unfolding long_from_string16_iff [symmetric] by auto
  with Inr show ?thesis by (auto simp: unicode_symbol_def py_int16_def py_chr_def)
qed

lemma padded_f120_literal: "int16_literal padded_f120 0xF120"
proof -
  have g: "digit_group (str_lit ''f1_20'')"
    unfolding str_lit_def
    by (simp, intro digit_group.intros) (simp_all add: is_hex_digit_def)
  have "padded_f120 = str_lit '' '' @ str_lit ''+'' @ str_lit ''0x_'' @ str_lit ''f1_20'' @ str_lit '' ''"
    by (simp add: padded_f120_def str_lit_def)
  moreover have "list_all py_isspace (str_lit '' '')" by (simp add: str_lit_def py_isspace_def)
  moreover have "(0xF120 :: int) = (if str_lit ''+'' = str_lit ''-'' then - 1 else 1) *
      int (hex_value (filter (\<lambda>c. c \<noteq> 95) (str_lit ''f1_20'')))"
    by (simp add: str_lit_def hex_value_def hex_digit_val_def)
  ultimately show ?thesis
    unfolding int16_literal_def using g by blast
qed

text \<open>
  Claim C4 fails as stated. The string \<^verbatim>\<open>" +0x_f1_20 "\<close> is no hexadecimal numeral: it
  has blanks, a sign, a prefix and underscores. Yet \<open>unicode_symbol\<close> does not fail on
  it; it returns the character U+F120.
\<close>

theorem not_a_hex_numeral_counterexample:
  "\<not> hex_numeral padded_f120 \<and> unicode_symbol offline (HexStr padded_f120) = Inr [0xF120]"
proof
  show "\<not> hex_numeral padded_f120"
    by (simp add: hex_numeral_def padded_f120_def str_lit_def is_hex_digit_def)
  have "list_all (\<lambda>c. c < 128) padded_f120" by (simp add: padded_f120_def str_lit_def)
  then have "transform_decimal_and_space offline padded_f120 = padded_f120"
    by (rule transform_ascii)
  moreover have "long_from_string16 padded_f120 = Inr 0xF120"
    by (rule literal_long_from_string16 [OF padded_f120_literal])
  ultimately show "unicode_symbol offline (HexStr padded_f120) = Inr [0xF120]"
    by (simp add: unicode_symbol_def py_int16_def py_chr_def)
qed

text \<open>
  Claim C4, as amended. \<open>unicode_symbol\<close> succeeds on a string exactly when the string,
  after \<^verbatim>\<open>int\<close> has mapped Unicode white space and decimal digits to ASCII (which
  changes nothing in an ASCII string), is a base-16 literal in the sense of
  \<open>int16_literal\<close> whose value lies in \<^verbatim>\<open>range(0x110000)\<close>; it then returns the character
  at that code point. On every other string it fails. A plain hexadecimal numeral is
  such a literal, with its positional value.
\<close>

theorem decode_reads_base16_literals:
  "(unicode_symbol w (HexStr h) = Inr s \<longleftrightarrow>
      (\<exists>v. int16_literal (transform_decimal_and_space w h) v \<and> 0 \<le> v \<and> v < 0x110000 \<and>
           s = [nat v])) \<and>
   ((\<exists>e. unicode_symbol w (HexStr h) = Inl e) \<longleftrightarrow>
      \<not> (\<exists>v. int16_literal (transform_decimal_and_space w h) v \<and> 0 \<le> v \<and> v < 0x110000)) \<and>
   (list_all (\<lambda>c. c < 128) h \<longrightarrow> transform_decimal_and_space w h = h) \<and>
   (hex_numeral h \<longrightarrow> int16_literal (transform_decimal_and_space w h) (int (hex_value h)))"
proof (intro conjI impI)
  show "unicode_symbol w (HexStr h) = Inr s \<longleftrightarrow>
      (\<exists>v. int16_literal (transform_decimal_and_space w h) v \<and> 0 \<le> v \<and> v < 0x110000 \<and>
           s = [nat v])"
    by (rule unicode_symbol_iff)
next
  have "(\<exists>e. unicode_symbol w (HexStr h) = Inl e) \<longleftrightarrow> \<not> (\<exists>s. unicode_symbol w (HexStr h) = Inr s)"
    by (cases "unicode_symbol w (HexStr h)") simp_all
  also have "\<dots> \<longleftrightarrow>
      \<not> (\<exists>v. int16_literal (transform_decimal_and_space w h) v \<and> 0 \<le> v \<and> v < 0x110000)"
    unfolding unicode_symbol_iff by blast
  finally show "(\<exists>e. unicode_symbol w (HexStr h) = Inl e) \<longleftrightarrow>
      \<not> (\<exists>v. int16_literal (transform_decimal_and_space w h) v \<and> 0 \<le> v \<and> v < 0x110000)" .
next
  assume "list_all (\<lambda>c. c < 128) h"
  then show "transform_decimal_and_space w h = h" by (rule transform_ascii)
next
  assume "hex_numeral h"
  then have h: "h \<noteq> []" "list_all is_hex_digit h" by (simp_all add: hex_numeral_def)
  have "long_from_string16 (transform_decimal_and_space w h) = Inr (int (hex_value h))"
    using long_from_string16_hex [OF h] transform_hex [OF h(2)] by simp
  then show "int16_literal (transform_decimal_and_space w h) (int (hex_value h))"
    by (rule long_from_string16_literal)
qed

theorem decode_reads_base16_literals_witness:
  "list_all (\<lambda>c. c < 128) padded_f120 \<and>
   transform_decimal_and_space offline padded_f120 = padded_f120 \<and>
   int16_literal padded_f120 0xF120 \<and>
   unicode_symbol offline (HexStr padded_f120) = Inr [0xF120] \<and>
   hex_numeral (str_lit ''f120'') \<and>
   int16_literal (transform_decimal_and_space offline (str_lit ''f120'')) (int (hex_value (str_lit ''f120'')))"
proof -
  have a: "list_all (\<lambda>c. c < 128) padded_f120" by (simp add: padded_f120_def str_lit_def)
  have n: "hex_numeral (str_lit ''f120'')"
    by (simp add: hex_numeral_def str_lit_def is_hex_digit_def)
  note t = decode_reads_base16_literals [of offline padded_f120 "[0xF120]"]
  note t' = decode_reads_base16_literals [of offline "str_lit ''f120''" "[]"]
  from t a have tr: "transform_decimal_and_space offline padded_f120 = padded_f120" by blast
  have "\<exists>v. int16_literal (transform_decimal_and_space offline padded_f120) v \<and> 0 \<le> v \<and>
          v < 0x110000 \<and> [0xF120] = [nat v]"
    unfolding tr using padded_f120_literal by (intro exI [of _ "0xF120"]) simp
  with t have "unicode_symbol offline (HexStr padded_f120) = Inr [0xF120]" by blast
  with a tr n t' padded_f120_literal show ?thesis by blast
qed

end
